theory Spec2Isabelle
  imports Main
begin

section \<open>The terminate-handler manager of ggml.cpp\<close>

text \<open>
  The file \<^verbatim>\<open>src/ggml/src/ggml.cpp\<close> holds one class, \<^verbatim>\<open>GgmlTerminateHandler\<close>,
  with a constructor, a destructor, the static function \<^verbatim>\<open>custom_terminate_handler\<close>
  and the static member \<^verbatim>\<open>s_previous_handler\<close>. The model below follows that file
  statement by statement.
\<close>

subsection \<open>Handler values and the process state\<close>

text \<open>
  A value of type \<^verbatim>\<open>std::terminate_handler\<close> is a function pointer. The code compares
  such pointers with \<^verbatim>\<open>custom_terminate_handler\<close> and tests them against \<^verbatim>\<open>nullptr\<close>, so
  three kinds of value are told apart: the null pointer, the address of
  \<^verbatim>\<open>custom_terminate_handler\<close>, and the address of any other function (numbered).
\<close>

datatype terminate_handler = Nullptr | Custom | Other nat

text \<open>
  The state the class works on. \<open>terminate_slot\<close> is the handler registered with the C++
  runtime, \<open>environ\<close> the process environment (name and value pairs), and
  \<open>s_previous_handler\<close> the static member of the class: one cell for the whole process,
  not one per object, initialised to \<^verbatim>\<open>nullptr\<close> (line 65).
\<close>

record process =
  terminate_slot :: terminate_handler
  environ :: "(string \<times> string) list"
  s_previous_handler :: terminate_handler

text \<open>
  Modelled from the spec: the platform's hook registration facility
  (\<^verbatim>\<open>std::get_terminate\<close>, \<^verbatim>\<open>std::set_terminate\<close>), which the spec describes as a way to
  read the registered hook and a way to set a new one, and the environment lookup
  \<^verbatim>\<open>getenv\<close>, which yields a null pointer exactly when the name is not set.
\<close>

definition get_terminate :: "process \<Rightarrow> terminate_handler" where
  "get_terminate p = terminate_slot p"

definition set_terminate :: "terminate_handler \<Rightarrow> process \<Rightarrow> process" where
  "set_terminate f p = p\<lparr>terminate_slot := f\<rparr>"

definition getenv :: "process \<Rightarrow> string \<Rightarrow> string option" where
  "getenv p name = map_of (environ p) name"

subsection \<open>Constructor and destructor\<close>

text \<open>
  Lines 19 to 36. The constructor returns at once when \<^verbatim>\<open>GGML_NO_BACKTRACE\<close> is set;
  otherwise it stores the registered handler in \<open>s_previous_handler\<close>, returns when that
  handler is \<^verbatim>\<open>custom_terminate_handler\<close>, and registers \<^verbatim>\<open>custom_terminate_handler\<close>
  otherwise. The store comes before the comparison, as in the source.
\<close>

definition GgmlTerminateHandler_ctor :: "process \<Rightarrow> process" where
  "GgmlTerminateHandler_ctor p =
    (if getenv p ''GGML_NO_BACKTRACE'' \<noteq> None then p
     else
       let p1 = p\<lparr>s_previous_handler := get_terminate p\<rparr> in
       if s_previous_handler p1 = Custom then p1
       else set_terminate Custom p1)"

text \<open>
  Lines 38 to 45. The destructor registers \<open>s_previous_handler\<close> again when the registered
  handler is \<^verbatim>\<open>custom_terminate_handler\<close>, and does nothing otherwise. It does not read the
  environment.
\<close>

definition GgmlTerminateHandler_dtor :: "process \<Rightarrow> process" where
  "GgmlTerminateHandler_dtor p =
    (if get_terminate p = Custom then set_terminate (s_previous_handler p) p
     else p)"

subsection \<open>Calls to code outside the file\<close>

text \<open>
  \<^verbatim>\<open>custom_terminate_handler\<close> calls two functions whose bodies are not in the file:
  \<^verbatim>\<open>ggml_print_backtrace\<close> and whatever function \<open>s_previous_handler\<close> points to. A call
  of a C++ function that takes no argument and yields no value can end in four ways: it
  returns, it ends the process itself, it throws, or it never comes back. Calling a null
  function pointer is undefined behaviour, kept apart as \<open>Crashes\<close>.
\<close>

datatype completion = Returns | Terminates | Throws | Hangs | Crashes

text \<open>
  Such a function can also register a terminate handler of its own choice through
  \<^verbatim>\<open>std::set_terminate\<close>. It cannot touch \<open>s_previous_handler\<close>, a private member of a
  class in an anonymous namespace.
\<close>

record extern =
  completes :: completion
  registers :: "terminate_handler option"

definition effect :: "extern \<Rightarrow> process \<Rightarrow> process" where
  "effect e p = (case registers e of None \<Rightarrow> p | Some h \<Rightarrow> set_terminate h p)"

text \<open>
  The behaviour of the code outside the file is a parameter of the model:
  \<open>ggml_print_backtrace\<close> for the backtrace reporter and \<open>other k\<close> for the function at
  address \<open>Other k\<close>.
\<close>

record world =
  ggml_print_backtrace :: extern
  other :: "nat \<Rightarrow> extern"

subsection \<open>The handler body\<close>

text \<open>
  What a run of the handler does, as seen from outside: the calls it makes in order, how
  it ends, and the state it leaves. \<open>Invoke h\<close> is the call through \<open>s_previous_handler\<close>
  when that pointer is \<open>h\<close>. An ending of \<open>None\<close> means that the bound on the call depth
  was used up before the run ended.
\<close>

datatype event = Backtrace | Invoke terminate_handler | Abort

record run =
  trace :: "event list"
  ending :: "completion option"
  final :: process

text \<open>
  Lines 49 to 57. \<open>custom_terminate_handler w n p\<close> runs the body with at most \<open>n\<close>
  nested activations of itself: \<open>s_previous_handler\<close> may hold the address of
  \<^verbatim>\<open>custom_terminate_handler\<close>, and then the body calls itself. \<open>call_handler\<close> is the
  call through a function pointer.
\<close>

fun custom_terminate_handler :: "world \<Rightarrow> nat \<Rightarrow> process \<Rightarrow> run"
  and call_handler :: "world \<Rightarrow> nat \<Rightarrow> terminate_handler \<Rightarrow> process \<Rightarrow> run" where
  "custom_terminate_handler w 0 p = \<lparr>trace = [], ending = None, final = p\<rparr>"
| "custom_terminate_handler w (Suc n) p =
    (let p1 = effect (ggml_print_backtrace w) p in
     case completes (ggml_print_backtrace w) of
       Returns \<Rightarrow>
         (if s_previous_handler p1 \<noteq> Nullptr then
            (let r = call_handler w n (s_previous_handler p1) p1 in
             case ending r of
               Some Returns \<Rightarrow>
                 \<lparr>trace = Backtrace # Invoke (s_previous_handler p1) # trace r @ [Abort],
                  ending = Some Terminates, final = final r\<rparr>
             | e \<Rightarrow>
                 \<lparr>trace = Backtrace # Invoke (s_previous_handler p1) # trace r,
                  ending = e, final = final r\<rparr>)
          else \<lparr>trace = [Backtrace, Abort], ending = Some Terminates, final = p1\<rparr>)
     | c \<Rightarrow> \<lparr>trace = [Backtrace], ending = Some c, final = p1\<rparr>)"
| "call_handler w n Nullptr p = \<lparr>trace = [], ending = Some Crashes, final = p\<rparr>"
| "call_handler w n Custom p = custom_terminate_handler w n p"
| "call_handler w n (Other k) p =
    \<lparr>trace = [], ending = Some (completes (other w k)), final = effect (other w k) p\<rparr>"

subsection \<open>Concrete worlds and states\<close>

text \<open>
  Inputs at which the theorems below are evaluated. In \<open>plain_world\<close> every function
  outside the file returns; in \<open>throwing_world\<close> the backtrace reporter throws; in
  \<open>throwing_hook_world\<close> and \<open>hanging_hook_world\<close> the reporter returns and every other
  handler throws, or never comes back. \<open>fresh\<close>
  is a process before the library is loaded: some handler of the host is registered,
  \<open>s_previous_handler\<close> is null and \<^verbatim>\<open>GGML_NO_BACKTRACE\<close> is not set. \<open>opted_out\<close> is
  the same process with the variable set to the empty string, and \<open>opted_out_late\<close> a
  process in which the handler of the class is registered already when the variable is
  set.
\<close>

definition returning :: extern where
  "returning = \<lparr>completes = Returns, registers = None\<rparr>"
definition throwing :: extern where
  "throwing = \<lparr>completes = Throws, registers = None\<rparr>"
definition plain_world :: world where
  "plain_world = \<lparr>ggml_print_backtrace = returning, other = (\<lambda>k. returning)\<rparr>"
definition throwing_world :: world where
  "throwing_world = \<lparr>ggml_print_backtrace = throwing, other = (\<lambda>k. returning)\<rparr>"
definition hanging :: extern where
  "hanging = \<lparr>completes = Hangs, registers = None\<rparr>"
definition throwing_hook_world :: world where
  "throwing_hook_world = \<lparr>ggml_print_backtrace = returning, other = (\<lambda>k. throwing)\<rparr>"
definition hanging_hook_world :: world where
  "hanging_hook_world = \<lparr>ggml_print_backtrace = returning, other = (\<lambda>k. hanging)\<rparr>"
definition fresh :: process where
  "fresh = \<lparr>terminate_slot = Other 0, environ = [], s_previous_handler = Nullptr\<rparr>"
definition opted_out :: process where
  "opted_out = \<lparr>terminate_slot = Other 0, environ = [(''GGML_NO_BACKTRACE'', '''')],
     s_previous_handler = Nullptr\<rparr>"
definition opted_out_late :: process where
  "opted_out_late = \<lparr>terminate_slot = Custom, environ = [(''GGML_NO_BACKTRACE'', ''1'')],
     s_previous_handler = Other 0\<rparr>"

lemmas fixtures = returning_def throwing_def plain_world_def throwing_world_def fresh_def
  opted_out_def opted_out_late_def hanging_def throwing_hook_world_def hanging_hook_world_def

lemmas operations = GgmlTerminateHandler_ctor_def GgmlTerminateHandler_dtor_def
  get_terminate_def set_terminate_def getenv_def effect_def

section \<open>Properties of the handler body\<close>

lemma effect_keeps_previous [simp]: "s_previous_handler (effect e p) = s_previous_handler p"
  by (simp add: effect_def set_terminate_def split: option.splits)

lemma body_never_returns: "ending (custom_terminate_handler w n p) \<noteq> Some Returns"
proof (induction n arbitrary: p)
  case 0
  then show ?case by simp
next
  case (Suc n)
  show ?case
  proof (cases "s_previous_handler p")
    case Nullptr
    then show ?thesis by (simp add: Let_def split: completion.splits)
  next
    case Custom
    with Suc show ?thesis by (simp add: Let_def split: completion.splits option.splits)
  next
    case (Other k)
    then show ?thesis by (simp add: Let_def split: completion.splits option.splits)
  qed
qed

lemma previous_kept:
  "s_previous_handler (final (custom_terminate_handler w n p)) = s_previous_handler p"
  "s_previous_handler (final (call_handler w n h p)) = s_previous_handler p"
proof (induction w n p and w n h p rule: custom_terminate_handler_call_handler.induct)
  case (2 w n p)
  then show ?case
    by (simp add: Let_def split: completion.splits option.splits)
qed simp_all

lemma body_absent:
  assumes "completes (ggml_print_backtrace w) = Returns" and "s_previous_handler p = Nullptr"
  shows "custom_terminate_handler w (Suc n) p =
    \<lparr>trace = [Backtrace, Abort], ending = Some Terminates,
     final = effect (ggml_print_backtrace w) p\<rparr>"
  using assms by (simp add: Let_def)

lemma body_other:
  assumes "completes (ggml_print_backtrace w) = Returns" and "s_previous_handler p = Other k"
  shows "custom_terminate_handler w (Suc n) p =
    (if completes (other w k) = Returns
     then \<lparr>trace = [Backtrace, Invoke (Other k), Abort], ending = Some Terminates,
           final = effect (other w k) (effect (ggml_print_backtrace w) p)\<rparr>
     else \<lparr>trace = [Backtrace, Invoke (Other k)], ending = Some (completes (other w k)),
           final = effect (other w k) (effect (ggml_print_backtrace w) p)\<rparr>)"
  using assms by (simp add: Let_def split: completion.splits)

lemma body_self:
  assumes "completes (ggml_print_backtrace w) = Returns" and "s_previous_handler p = Custom"
  shows "custom_terminate_handler w (Suc n) p =
    (let r = custom_terminate_handler w n (effect (ggml_print_backtrace w) p) in
     \<lparr>trace = Backtrace # Invoke Custom # trace r, ending = ending r, final = final r\<rparr>)"
  using assms body_never_returns [of w n "effect (ggml_print_backtrace w) p"]
  by (simp add: Let_def split: completion.splits option.splits)

lemma body_reporter_fails:
  assumes "completes (ggml_print_backtrace w) \<noteq> Returns"
  shows "custom_terminate_handler w (Suc n) p =
    \<lparr>trace = [Backtrace], ending = Some (completes (ggml_print_backtrace w)),
     final = effect (ggml_print_backtrace w) p\<rparr>"
  using assms by (simp add: Let_def split: completion.splits)

declare custom_terminate_handler.simps(2) [simp del]

lemma self_chained:
  assumes "completes (ggml_print_backtrace w) = Returns" and "s_previous_handler p = Custom"
  shows "ending (custom_terminate_handler w n p) = None \<and>
         count_list (trace (custom_terminate_handler w n p)) Backtrace = n \<and>
         count_list (trace (custom_terminate_handler w n p)) (Invoke Custom) = n"
  using assms
proof (induction n arbitrary: p)
  case 0
  then show ?case by simp
next
  case (Suc n)
  have "s_previous_handler (effect (ggml_print_backtrace w) p) = Custom"
    using Suc.prems by simp
  from Suc.IH [OF Suc.prems(1) this] show ?case
    by (simp add: body_self [OF Suc.prems] Let_def)
qed


lemma no_null_call: "Invoke Nullptr \<notin> set (trace (custom_terminate_handler w n p))"
proof (induction n arbitrary: p)
  case 0
  then show ?case by simp
next
  case (Suc n)
  let ?b = "ggml_print_backtrace w"
  show ?case
  proof (cases "completes ?b = Returns")
    case False
    then show ?thesis by (simp add: body_reporter_fails)
  next
    case True
    show ?thesis
    proof (cases "s_previous_handler p")
      case Nullptr
      then show ?thesis by (simp add: body_absent [OF True])
    next
      case Custom
      with Suc show ?thesis by (simp add: body_self [OF True] Let_def)
    next
      case (Other k)
      then show ?thesis by (simp add: body_other [OF True])
    qed
  qed
qed

lemma chain_once:
  assumes "completes (ggml_print_backtrace w) = Returns" and "s_previous_handler p = Other k"
  shows "count_list (trace (custom_terminate_handler w (Suc n) p)) (Invoke (Other k)) = 1"
  using assms by (simp add: body_other)

section \<open>The claims\<close>

text \<open>
  Claim C1. The claim says that in every state of \<open>s_previous_handler\<close> a run of the
  handler body ends by forcing the process to terminate and never gives control back to
  its caller. The body has no handler around the call in line 53: when the previous
  handler is another function that throws, the exception leaves the body, and when that
  function never comes back, neither does the body. In both runs \<^verbatim>\<open>abort\<close> is not called
  and the process has not been terminated.
\<close>

theorem hook_body_termination_counterexample:
  "s_previous_handler (GgmlTerminateHandler_ctor fresh) = Other 0 \<and>
   completes (ggml_print_backtrace throwing_hook_world) = Returns \<and>
   completes (other throwing_hook_world 0) = Throws \<and>
   custom_terminate_handler throwing_hook_world (Suc 0) (GgmlTerminateHandler_ctor fresh) =
     \<lparr>trace = [Backtrace, Invoke (Other 0)], ending = Some Throws,
      final = GgmlTerminateHandler_ctor fresh\<rparr> \<and>
   completes (ggml_print_backtrace hanging_hook_world) = Returns \<and>
   completes (other hanging_hook_world 0) = Hangs \<and>
   custom_terminate_handler hanging_hook_world (Suc 0) (GgmlTerminateHandler_ctor fresh) =
     \<lparr>trace = [Backtrace, Invoke (Other 0)], ending = Some Hangs,
      final = GgmlTerminateHandler_ctor fresh\<rparr>"
  by (simp add: fixtures operations custom_terminate_handler.simps)

text \<open>
  Claim C1, as amended. Whatever \<open>s_previous_handler\<close> holds, no run of the body, of any
  depth, ends by returning to its caller. Once the backtrace reporter has returned, one
  activation of the body decides the run in these states: when the previous handler is
  absent, the run ends with the call of \<^verbatim>\<open>abort\<close>, which terminates the process; when it
  is another function, the run ends as that function's call ends, except that a return
  is followed by the call of \<^verbatim>\<open>abort\<close>. So the process is terminated when that function
  returns or terminates the process itself, \<^verbatim>\<open>abort\<close> is called exactly when it returns,
  and a function that throws or never comes back keeps the body from reaching
  \<^verbatim>\<open>abort\<close>. When the reporter does not return, the run ends as the reporter's call ends
  and \<^verbatim>\<open>abort\<close> is not called.
\<close>

theorem hook_body_ending:
  "ending (custom_terminate_handler w n p) \<noteq> Some Returns \<and>
   (completes (ggml_print_backtrace w) = Returns \<longrightarrow>
      (s_previous_handler p = Nullptr \<longrightarrow>
         ending (custom_terminate_handler w (Suc n) p) = Some Terminates \<and>
         last (trace (custom_terminate_handler w (Suc n) p)) = Abort) \<and>
      (\<forall>k. s_previous_handler p = Other k \<longrightarrow>
         ending (custom_terminate_handler w (Suc n) p) =
           Some (if completes (other w k) = Returns then Terminates
                 else completes (other w k)) \<and>
         (Abort \<in> set (trace (custom_terminate_handler w (Suc n) p))
            \<longleftrightarrow> completes (other w k) = Returns) \<and>
         (completes (other w k) = Returns \<longrightarrow>
            last (trace (custom_terminate_handler w (Suc n) p)) = Abort))) \<and>
   (completes (ggml_print_backtrace w) \<noteq> Returns \<longrightarrow>
      ending (custom_terminate_handler w (Suc n) p) = Some (completes (ggml_print_backtrace w)) \<and>
      Abort \<notin> set (trace (custom_terminate_handler w (Suc n) p)))"
proof (intro conjI impI allI)
  show "ending (custom_terminate_handler w n p) \<noteq> Some Returns"
    by (rule body_never_returns)
next
  assume b: "completes (ggml_print_backtrace w) = Returns"
    and h: "s_previous_handler p = Nullptr"
  show "ending (custom_terminate_handler w (Suc n) p) = Some Terminates"
    and "last (trace (custom_terminate_handler w (Suc n) p)) = Abort"
    by (simp_all add: body_absent [OF b h])
next
  fix k
  assume b: "completes (ggml_print_backtrace w) = Returns"
    and h: "s_previous_handler p = Other k"
  show "ending (custom_terminate_handler w (Suc n) p) =
      Some (if completes (other w k) = Returns then Terminates else completes (other w k))"
    by (simp add: body_other [OF b h])
  show "(Abort \<in> set (trace (custom_terminate_handler w (Suc n) p)))
      = (completes (other w k) = Returns)"
    by (simp add: body_other [OF b h])
  show "last (trace (custom_terminate_handler w (Suc n) p)) = Abort"
    if "completes (other w k) = Returns"
    using that by (simp add: body_other [OF b h])
next
  assume "completes (ggml_print_backtrace w) \<noteq> Returns"
  then show "ending (custom_terminate_handler w (Suc n) p)
      = Some (completes (ggml_print_backtrace w))"
    and "Abort \<notin> set (trace (custom_terminate_handler w (Suc n) p))"
    by (simp_all add: body_reporter_fails)
qed

theorem hook_body_ending_witness:
  "completes (ggml_print_backtrace plain_world) = Returns \<and>
   s_previous_handler fresh = Nullptr \<and>
   ending (custom_terminate_handler plain_world (Suc 0) fresh) = Some Terminates \<and>
   last (trace (custom_terminate_handler plain_world (Suc 0) fresh)) = Abort \<and>
   s_previous_handler (GgmlTerminateHandler_ctor fresh) = Other 0 \<and>
   completes (other plain_world 0) = Returns \<and>
   ending (custom_terminate_handler plain_world (Suc 0) (GgmlTerminateHandler_ctor fresh))
     = Some Terminates \<and>
   Abort \<in> set (trace (custom_terminate_handler plain_world (Suc 0)
     (GgmlTerminateHandler_ctor fresh))) \<and>
   last (trace (custom_terminate_handler plain_world (Suc 0) (GgmlTerminateHandler_ctor fresh)))
     = Abort \<and>
   completes (other throwing_hook_world 0) = Throws \<and>
   ending (custom_terminate_handler throwing_hook_world (Suc 0) (GgmlTerminateHandler_ctor fresh))
     = Some Throws \<and>
   Abort \<notin> set (trace (custom_terminate_handler throwing_hook_world (Suc 0)
     (GgmlTerminateHandler_ctor fresh))) \<and>
   completes (ggml_print_backtrace throwing_world) = Throws \<and>
   ending (custom_terminate_handler throwing_world (Suc 0) fresh) = Some Throws \<and>
   Abort \<notin> set (trace (custom_terminate_handler throwing_world (Suc 0) fresh))"
  using hook_body_ending [of plain_world 0 fresh]
    hook_body_ending [of plain_world 0 "GgmlTerminateHandler_ctor fresh"]
    hook_body_ending [of throwing_hook_world 0 "GgmlTerminateHandler_ctor fresh"]
    hook_body_ending [of throwing_world 0 fresh]
  by (simp add: fixtures operations)

text \<open>
  Claim C2. The claim says that a second construction, while the handler of the class is
  registered and \<^verbatim>\<open>GGML_NO_BACKTRACE\<close> is not set, changes neither the registered handler
  nor \<open>s_previous_handler\<close>, and that a later fatal event prints one backtrace. The
  constructor stores the registered handler before it compares it (line 26 comes before
  line 31), so the second construction leaves the registered handler alone but overwrites
  \<open>s_previous_handler\<close> with the address of \<^verbatim>\<open>custom_terminate_handler\<close>. The body then calls
  itself: three activations print three backtraces and the run has not ended. Lemma
  \<open>self_chained\<close> shows the same for every depth.
\<close>

theorem second_construction_breaks_chain:
  "get_terminate (GgmlTerminateHandler_ctor fresh) = Custom \<and>
   s_previous_handler (GgmlTerminateHandler_ctor fresh) = Other 0 \<and>
   get_terminate (GgmlTerminateHandler_ctor (GgmlTerminateHandler_ctor fresh)) = Custom \<and>
   s_previous_handler (GgmlTerminateHandler_ctor (GgmlTerminateHandler_ctor fresh)) = Custom \<and>
   custom_terminate_handler plain_world (Suc (Suc (Suc 0)))
       (GgmlTerminateHandler_ctor (GgmlTerminateHandler_ctor fresh)) =
     \<lparr>trace = [Backtrace, Invoke Custom, Backtrace, Invoke Custom, Backtrace, Invoke Custom],
      ending = None,
      final = GgmlTerminateHandler_ctor (GgmlTerminateHandler_ctor fresh)\<rparr>"
  by (simp add: fixtures operations custom_terminate_handler.simps)

text \<open>
  Claim C3. With \<^verbatim>\<open>GGML_NO_BACKTRACE\<close> not set, construction leaves the handler of the
  class registered, and destruction right after it registers again the handler that was
  registered before the construction, whatever that handler was.
\<close>

theorem restore_after_install:
  "getenv p ''GGML_NO_BACKTRACE'' = None \<Longrightarrow>
   get_terminate (GgmlTerminateHandler_ctor p) = Custom \<and>
   get_terminate (GgmlTerminateHandler_dtor (GgmlTerminateHandler_ctor p)) = get_terminate p"
  by (simp add: operations Let_def)

theorem restore_after_install_witness:
  "getenv fresh ''GGML_NO_BACKTRACE'' = None \<and>
   get_terminate fresh = Other 0 \<and>
   get_terminate (GgmlTerminateHandler_ctor fresh) = Custom \<and>
   get_terminate (GgmlTerminateHandler_dtor (GgmlTerminateHandler_ctor fresh)) = Other 0"
  using restore_after_install [of fresh]
  by (simp add: fresh_def getenv_def get_terminate_def)

text \<open>
  Claim C4. When, after the construction, somebody registers a handler \<open>B\<close> other than
  the handler of the class, the destructor changes nothing: the state after it is the state
  before it, and \<open>B\<close> is still registered.
\<close>

theorem destructor_keeps_foreign_handler:
  "B \<noteq> Custom \<Longrightarrow>
   GgmlTerminateHandler_dtor (set_terminate B (GgmlTerminateHandler_ctor p))
     = set_terminate B (GgmlTerminateHandler_ctor p) \<and>
   get_terminate (GgmlTerminateHandler_dtor (set_terminate B (GgmlTerminateHandler_ctor p))) = B"
  by (simp add: GgmlTerminateHandler_dtor_def get_terminate_def set_terminate_def)

theorem destructor_keeps_foreign_handler_witness:
  "Other 7 \<noteq> Custom \<and>
   get_terminate (GgmlTerminateHandler_ctor fresh) = Custom \<and>
   get_terminate (GgmlTerminateHandler_dtor (set_terminate (Other 7) (GgmlTerminateHandler_ctor fresh)))
     = Other 7"
  using destructor_keeps_foreign_handler [of "Other 7" fresh]
  by (simp add: fresh_def GgmlTerminateHandler_ctor_def getenv_def get_terminate_def
      set_terminate_def)

text \<open>
  Claim C5. The claim says that with \<^verbatim>\<open>GGML_NO_BACKTRACE\<close> set, construction and
  destruction both leave the registered handler unchanged. The destructor does not read
  the variable: when the handler of the class is registered at that moment (by an earlier
  object, constructed before the variable was set), it registers \<open>s_previous_handler\<close>
  in its place.
\<close>

theorem opted_out_destructor_counterexample:
  "getenv opted_out_late ''GGML_NO_BACKTRACE'' = Some ''1'' \<and>
   get_terminate opted_out_late = Custom \<and>
   get_terminate (GgmlTerminateHandler_ctor opted_out_late) = Custom \<and>
   get_terminate (GgmlTerminateHandler_dtor (GgmlTerminateHandler_ctor opted_out_late)) = Other 0"
  by (simp add: fixtures operations)

text \<open>
  Claim C5, as amended. With \<^verbatim>\<open>GGML_NO_BACKTRACE\<close> set to any value, construction
  changes nothing, so no previous handler is recorded; destruction leaves
  \<open>s_previous_handler\<close> unchanged, and it leaves the registered handler unchanged exactly
  when that handler is not the handler of the class or \<open>s_previous_handler\<close> is the
  handler of the class itself.
\<close>

theorem opted_out_is_skipped:
  "getenv p ''GGML_NO_BACKTRACE'' \<noteq> None \<Longrightarrow>
   GgmlTerminateHandler_ctor p = p \<and>
   s_previous_handler (GgmlTerminateHandler_dtor (GgmlTerminateHandler_ctor p))
     = s_previous_handler p \<and>
   (get_terminate (GgmlTerminateHandler_dtor (GgmlTerminateHandler_ctor p)) = get_terminate p
     \<longleftrightarrow> get_terminate p \<noteq> Custom \<or> s_previous_handler p = Custom)"
  by (auto simp: operations)

theorem opted_out_is_skipped_witness:
  "getenv opted_out ''GGML_NO_BACKTRACE'' = Some [] \<and>
   get_terminate opted_out = Other 0 \<and>
   GgmlTerminateHandler_ctor opted_out = opted_out \<and>
   GgmlTerminateHandler_dtor (GgmlTerminateHandler_ctor opted_out) = opted_out"
  using opted_out_is_skipped [of opted_out]
  by (simp add: opted_out_def getenv_def get_terminate_def GgmlTerminateHandler_dtor_def)

text \<open>
  Claim C6. The claim says that after an installation that was not opted out, a previous
  handler that is present is called exactly once per fatal event. Lemma \<open>chain_once\<close>
  shows this when the previous handler is another function. After a second construction
  (see claim C2) the previous handler is \<^verbatim>\<open>custom_terminate_handler\<close> itself, and it is
  called once in every activation: three times within three activations.
\<close>

theorem redundant_install_chains_repeatedly:
  "getenv (GgmlTerminateHandler_ctor fresh) ''GGML_NO_BACKTRACE'' = None \<and>
   s_previous_handler (GgmlTerminateHandler_ctor (GgmlTerminateHandler_ctor fresh)) = Custom \<and>
   count_list
     (trace (custom_terminate_handler plain_world (Suc (Suc (Suc 0)))
        (GgmlTerminateHandler_ctor (GgmlTerminateHandler_ctor fresh))))
     (Invoke Custom) = 3"
  by (simp add: fixtures operations custom_terminate_handler.simps)



text \<open>
  Claim C8. The claim says that a failure raised by the backtrace reporter is swallowed
  in the body, which goes on to the previous handler and to \<^verbatim>\<open>abort\<close>. The body has no
  handler around the call in line 50: when the reporter throws, the run ends with the
  exception, and neither the previous handler nor \<^verbatim>\<open>abort\<close> is called.
\<close>

theorem reporter_failure_counterexample:
  "completes (ggml_print_backtrace throwing_world) = Throws \<and>
   s_previous_handler (GgmlTerminateHandler_ctor fresh) = Other 0 \<and>
   custom_terminate_handler throwing_world (Suc 0) (GgmlTerminateHandler_ctor fresh) =
     \<lparr>trace = [Backtrace], ending = Some Throws, final = GgmlTerminateHandler_ctor fresh\<rparr>"
  by (simp add: fixtures operations custom_terminate_handler.simps)

text \<open>
  Claim C8, as amended. When the backtrace reporter throws, the exception leaves the body
  and the reporter's call is the only event of the run. When the reporter returns, the
  body goes on: to \<^verbatim>\<open>abort\<close> when there is no previous handler, to the previous handler
  when there is one, and after that to \<^verbatim>\<open>abort\<close> when that handler is another function
  that returns.
\<close>

theorem reporter_failure_propagates:
  "(completes (ggml_print_backtrace w) = Throws \<longrightarrow>
      trace (custom_terminate_handler w (Suc n) p) = [Backtrace] \<and>
      ending (custom_terminate_handler w (Suc n) p) = Some Throws) \<and>
   (completes (ggml_print_backtrace w) = Returns \<longrightarrow>
      (s_previous_handler p = Nullptr \<longrightarrow>
         trace (custom_terminate_handler w (Suc n) p) = [Backtrace, Abort]) \<and>
      (s_previous_handler p \<noteq> Nullptr \<longrightarrow>
         take 2 (trace (custom_terminate_handler w (Suc n) p))
           = [Backtrace, Invoke (s_previous_handler p)]) \<and>
      (\<forall>k. s_previous_handler p = Other k \<and> completes (other w k) = Returns \<longrightarrow>
         trace (custom_terminate_handler w (Suc n) p)
           = [Backtrace, Invoke (Other k), Abort]))"
proof (intro conjI impI allI)
  assume "completes (ggml_print_backtrace w) = Throws"
  then show "trace (custom_terminate_handler w (Suc n) p) = [Backtrace]"
    and "ending (custom_terminate_handler w (Suc n) p) = Some Throws"
    by (simp_all add: body_reporter_fails)
next
  assume "completes (ggml_print_backtrace w) = Returns" "s_previous_handler p = Nullptr"
  then show "trace (custom_terminate_handler w (Suc n) p) = [Backtrace, Abort]"
    by (simp add: body_absent)
next
  assume b: "completes (ggml_print_backtrace w) = Returns" and h: "s_previous_handler p \<noteq> Nullptr"
  show "take 2 (trace (custom_terminate_handler w (Suc n) p))
      = [Backtrace, Invoke (s_previous_handler p)]"
  proof (cases "s_previous_handler p")
    case Nullptr
    with h show ?thesis by simp
  next
    case Custom
    then show ?thesis by (simp add: body_self [OF b] Let_def numeral_2_eq_2)
  next
    case (Other k)
    then show ?thesis by (simp add: body_other [OF b] numeral_2_eq_2)
  qed
next
  fix k
  assume "completes (ggml_print_backtrace w) = Returns"
    "s_previous_handler p = Other k \<and> completes (other w k) = Returns"
  then show "trace (custom_terminate_handler w (Suc n) p) = [Backtrace, Invoke (Other k), Abort]"
    by (simp add: body_other)
qed

theorem reporter_failure_propagates_witness:
  "completes (ggml_print_backtrace throwing_world) = Throws \<and>
   trace (custom_terminate_handler throwing_world (Suc 0) (GgmlTerminateHandler_ctor fresh))
     = [Backtrace] \<and>
   ending (custom_terminate_handler throwing_world (Suc 0) (GgmlTerminateHandler_ctor fresh))
     = Some Throws \<and>
   completes (ggml_print_backtrace plain_world) = Returns \<and>
   s_previous_handler (GgmlTerminateHandler_ctor fresh) = Other 0 \<and>
   completes (other plain_world 0) = Returns \<and>
   trace (custom_terminate_handler plain_world (Suc 0) (GgmlTerminateHandler_ctor fresh))
     = [Backtrace, Invoke (Other 0), Abort]"
  using reporter_failure_propagates [of throwing_world 0 "GgmlTerminateHandler_ctor fresh"]
    reporter_failure_propagates [of plain_world 0 "GgmlTerminateHandler_ctor fresh"]
  by (simp add: fixtures operations)

text \<open>
  Claim C9. No run of the body calls a null pointer. When \<open>s_previous_handler\<close> is
  null, the run calls no handler at all, and once the backtrace reporter has returned it
  goes straight to \<^verbatim>\<open>abort\<close>.
\<close>

theorem null_handler_never_called:
  "Invoke Nullptr \<notin> set (trace (custom_terminate_handler w n p)) \<and>
   (s_previous_handler p = Nullptr \<longrightarrow>
      (\<forall>h. Invoke h \<notin> set (trace (custom_terminate_handler w n p))) \<and>
      (completes (ggml_print_backtrace w) = Returns \<longrightarrow>
         trace (custom_terminate_handler w (Suc n) p) = [Backtrace, Abort] \<and>
         ending (custom_terminate_handler w (Suc n) p) = Some Terminates))"
proof (intro conjI impI allI)
  show "Invoke Nullptr \<notin> set (trace (custom_terminate_handler w n p))"
    by (rule no_null_call)
next
  fix h
  assume null: "s_previous_handler p = Nullptr"
  show "Invoke h \<notin> set (trace (custom_terminate_handler w n p))"
  proof (cases n)
    case 0
    then show ?thesis by simp
  next
    case (Suc m)
    with null show ?thesis
      by (cases "completes (ggml_print_backtrace w) = Returns")
        (simp_all add: body_absent body_reporter_fails)
  qed
next
  assume "s_previous_handler p = Nullptr" "completes (ggml_print_backtrace w) = Returns"
  then show "trace (custom_terminate_handler w (Suc n) p) = [Backtrace, Abort]"
    and "ending (custom_terminate_handler w (Suc n) p) = Some Terminates"
    by (simp_all add: body_absent)
qed

theorem null_handler_never_called_witness:
  "s_previous_handler fresh = Nullptr \<and>
   completes (ggml_print_backtrace plain_world) = Returns \<and>
   Invoke Nullptr \<notin> set (trace (custom_terminate_handler plain_world (Suc 0) fresh)) \<and>
   trace (custom_terminate_handler plain_world (Suc (Suc 0)) fresh) = [Backtrace, Abort] \<and>
   ending (custom_terminate_handler plain_world (Suc (Suc 0)) fresh) = Some Terminates"
  using null_handler_never_called [of plain_world "Suc 0" fresh]
  by (simp add: fixtures)

text \<open>
  Claim C10. \<open>s_previous_handler\<close> is a field of the process state, not of an object:
  constructor and destructor take no object and work on the one cell. The destructor, the
  handler body at every depth, a registration by somebody else and every call to code
  outside the file leave the cell as it is. The constructor leaves it as it is when
  \<^verbatim>\<open>GGML_NO_BACKTRACE\<close> is set and writes the registered handler into it otherwise.
\<close>

theorem previous_handler_written_by_constructor_only:
  "s_previous_handler (GgmlTerminateHandler_dtor p) = s_previous_handler p \<and>
   s_previous_handler (final (custom_terminate_handler w n p)) = s_previous_handler p \<and>
   s_previous_handler (set_terminate h p) = s_previous_handler p \<and>
   s_previous_handler (effect e p) = s_previous_handler p \<and>
   s_previous_handler (GgmlTerminateHandler_ctor p) =
     (if getenv p ''GGML_NO_BACKTRACE'' \<noteq> None then s_previous_handler p
      else get_terminate p)"
  by (simp add: previous_kept GgmlTerminateHandler_dtor_def GgmlTerminateHandler_ctor_def
      set_terminate_def Let_def)

end
